theory Spec2Isabelle
  imports Complex_Main "HOL-Library.Log_Nat" "HOL-Library.Sublist"
begin

section \<open>Python values used by the workflow\<close>

subsection \<open>Strings\<close>

text \<open>
  Python strings are modelled as character lists. \<open>str.lower\<close> folds the letters
  \<open>A\<close> to \<open>Z\<close>; every other character is left alone (the vocabulary and the
  marker \<open>demo\<close> are plain lower-case ASCII).
\<close>

definition py_lower_char :: "char \<Rightarrow> char" where
  "py_lower_char c =
     (let n = (of_char c :: nat) in if 65 \<le> n \<and> n \<le> 90 then char_of (n + 32) else c)"

definition py_lower :: "string \<Rightarrow> string" where
  "py_lower s = map py_lower_char s"

text \<open>\<open>k in text\<close> for strings: \<open>k\<close> occurs as a contiguous run of \<open>text\<close>.\<close>

fun py_in :: "string \<Rightarrow> string \<Rightarrow> bool" where
  "py_in k [] = (k = [])"
| "py_in k (c # cs) = (prefix k (c # cs) \<or> py_in k cs)"

text \<open>
  Slicing \<open>xs[:n]\<close>: a negative bound counts from the end, and bounds beyond
  either end are clipped.
\<close>

definition py_slice_to :: "int \<Rightarrow> 'a list \<Rightarrow> 'a list" where
  "py_slice_to n xs =
     (if 0 \<le> n then take (nat n) xs else take (nat (int (length xs) + n)) xs)"

subsection \<open>Floats\<close>

text \<open>
  A Python float is an IEEE 754 binary64 number. A finite one is modelled by its exact
  rational value; every arithmetic operation computes the exact result and rounds it to
  the nearest representable number, ties to the even significand. \<open>ilog2 x\<close> is the
  binary exponent of a positive \<open>x\<close>; below \<open>2 powi (-1022)\<close> the spacing of the
  representable numbers stays that of the smallest normal binade. Overflow to infinity
  is not modelled: no operation of the scorer leaves the interval from 0 to 3.
\<close>

definition round_half_even :: "rat \<Rightarrow> int" where
  "round_half_even x =
     (let f = \<lfloor>x\<rfloor>; r = x - of_int f
      in if r < 1 / 2 then f else if 1 / 2 < r then f + 1 else if even f then f else f + 1)"

definition ilog2 :: "rat \<Rightarrow> int" where
  "ilog2 x =
     (let (p, q) = quotient_of x; d = bitlen p - bitlen q
      in if 2 powi d \<le> x then d else d - 1)"

definition double_round :: "rat \<Rightarrow> rat" where
  "double_round x =
     (if x = 0 then 0
      else let e = max (ilog2 \<bar>x\<bar>) (- 1022); q = 2 powi (e - 52)
           in sgn x * of_int (round_half_even (\<bar>x\<bar> / q)) * q)"

text \<open>A decimal literal denotes the float nearest to it.\<close>

definition float_lit :: "rat \<Rightarrow> rat" where
  "float_lit x = double_round x"

text \<open>\<open>a / b\<close> on two integers (true division, correctly rounded) and \<open>x * y\<close>.\<close>

definition int_truediv :: "int \<Rightarrow> int \<Rightarrow> rat" where
  "int_truediv a b = double_round (of_int a / of_int b)"

definition float_mul :: "rat \<Rightarrow> rat \<Rightarrow> rat" where
  "float_mul x y = double_round (x * y)"

section \<open>Documents\<close>

text \<open>
  An article is a dictionary with string keys. The workflow reads and writes seven keys:
  six hold strings and \<open>relevance_score\<close> holds a float. A key that is absent from the
  dictionary is \<open>None\<close> here, and \<open>dict_get\<close> is \<open>article.get(key, default)\<close>.
\<close>

record article =
  title :: "string option"
  url :: "string option"
  date :: "string option"
  summary :: "string option"
  source :: "string option"
  content :: "string option"
  relevance_score :: "rat option"

definition dict_get :: "'a option \<Rightarrow> 'a \<Rightarrow> 'a" where
  "dict_get v d = (case v of None \<Rightarrow> d | Some x \<Rightarrow> x)"

section \<open>Relevance scorer\<close>

definition keyword_list :: "string list" where
  "keyword_list =
     [''software'', ''development'', ''sdlc'', ''ci/cd'', ''devops'', ''pipeline'',
      ''container'', ''cloud'', ''security'', ''secure'', ''sast'', ''dast'', ''sbom'',
      ''supply chain'', ''cui'', ''pii'', ''authentication'', ''access'', ''control'',
      ''nist'', ''framework'', ''cybersecurity'', ''compliance'', ''controls'',
      ''sp 800'', ''800-53'', ''800-171'', ''800-218'', ''ssdf'', ''guidance'']"

text \<open>The text the scorer inspects: title, summary and the first 1000 characters of the content.\<close>

definition scored_text :: "article \<Rightarrow> string" where
  "scored_text a =
     py_lower (dict_get (title a) [] @ '' '' @ dict_get (summary a) [] @ '' '' @
               py_slice_to 1000 (dict_get (content a) []))"

definition matches :: "article \<Rightarrow> nat" where
  "matches a = length (filter (\<lambda>keyword. py_in keyword (scored_text a)) keyword_list)"

text \<open>\<open>score = matches / len(keywords)\<close>, before the demo floor and the scaling.\<close>

definition raw_score :: "article \<Rightarrow> rat" where
  "raw_score a = int_truediv (int (matches a)) (int (length keyword_list))"

definition is_demo :: "article \<Rightarrow> bool" where
  "is_demo a = py_in ''demo'' (py_lower (dict_get (source a) []))"

definition keyword_based_relevance :: "article \<Rightarrow> rat" where
  "keyword_based_relevance a =
     (let score = raw_score a;
          score = (if is_demo a then max score (float_lit (8 / 10)) else score);
          final_score = min (float_mul score 3) 1
      in final_score)"

text \<open>
  The exceptions of the workflow: Python's \<open>ValueError\<close>, any exception of the HTTP
  client, the parser or the publishing client (\<open>RequestError\<close>), and the web
  framework's \<open>HTTPException\<close> with its status code and detail.
\<close>

datatype error = ValueError | RequestError | HTTPException int string

text \<open>
  \<open>_assess_it_relevance\<close> always delegates to the keyword scorer; it returns a result or
  raises, and the keyword scorer does not raise on string fields.
\<close>

definition assess_it_relevance :: "article \<Rightarrow> error + rat" where
  "assess_it_relevance a = Inr (keyword_based_relevance a)"

section \<open>Configuration and external collaborators\<close>

text \<open>
  The network, the search API and the publishing service are outside the program. Each is
  a function of the environment that returns a result or the exception it raised:
  \<^item> \<open>http_get_results url\<close>: the listing page at \<open>url\<close>, as the (title, link) pairs the
    scraper reads from the result elements that have a title element, in page order;
  \<^item> \<open>custom_search query num\<close>: the items of the search API's answer, as
    (title, link, displayLink, snippet), each already defaulted to the empty string;
  \<^item> \<open>http_get_text url\<close>: the cleaned text of the first content region of the page at
    \<open>url\<close>, or \<open>None\<close> when the page has not even a body;
  \<^item> \<open>publish summary articles\<close>: the summary URL and the pull request URL;
  \<^item> \<open>exception_str e\<close>: what \<open>str(e)\<close> gives for an exception of the libraries.
  \<open>today\<close> is the date the scraper stamps on what it finds.
\<close>

record env =
  google_api_key :: "string option"
  search_engine_id :: "string option"
  github_client :: bool
  today :: string
  http_get_results :: "string \<Rightarrow> error + (string \<times> string) list"
  custom_search :: "string \<Rightarrow> int \<Rightarrow> error + (string \<times> string \<times> string \<times> string) list"
  http_get_text :: "string \<Rightarrow> error + string option"
  publish :: "string \<Rightarrow> article list \<Rightarrow> error + string \<times> string"
  exception_str :: "error \<Rightarrow> string"

definition NIST_BASE_URL :: string where
  "NIST_BASE_URL = ''https://csrc.nist.gov''"

definition NIST_SEARCH_TERMS :: "string list" where
  "NIST_SEARCH_TERMS =
     [''NIST SP 800-53'', ''NIST SP 800-171'', ''NIST SP 800-218'',
      ''cybersecurity framework'', ''secure software development'',
      ''supply chain security'', ''SSDF'']"

text \<open>Truthiness of an optional string: \<open>None\<close> and the empty string are false.\<close>

definition truthy :: "string option \<Rightarrow> bool" where
  "truthy v = (case v of None \<Rightarrow> False | Some s \<Rightarrow> s \<noteq> [])"

section \<open>Source adapters\<close>

definition demo_articles :: "article list" where
  "demo_articles =
     [\<lparr>title = Some ''NIST SP 800-218A: Secure Software Development Framework (SSDF) v1.1'',
       url = Some ''https://csrc.nist.gov/publications/detail/sp/800-218a/final'',
       date = Some ''2024-12-01'',
       summary = Some ''This document provides guidance on implementing secure software development practices throughout the software development life cycle (SDLC), including CI/CD pipeline security, supply chain security, and SBOM requirements.'',
       source = Some ''NIST CSRC (Demo)'',
       content = Some ''This publication provides updated guidance for implementing secure software development practices, with enhanced focus on CI/CD pipeline security, supply chain security, SBOM requirements, container security, and DevOps integration.'',
       relevance_score = None\<rparr>,
      \<lparr>title = Some ''NIST Cybersecurity Framework 2.0: Updated Implementation Guidance'',
       url = Some ''https://csrc.nist.gov/cyberframework/framework'',
       date = Some ''2024-11-15'',
       summary = Some ''Major update to the NIST Cybersecurity Framework with new guidance for cloud environments, IoT security, and supply chain risk management.'',
       source = Some ''NIST CSRC (Demo)'',
       content = Some ''The updated framework includes new core functions for cybersecurity governance, cloud security guidance, supply chain subcategories, and expanded coverage for operational technology and IoT.'',
       relevance_score = None\<rparr>,
      \<lparr>title = Some ''NIST SP 800-53 Rev 5: Security Controls for Federal Information Systems'',
       url = Some ''https://csrc.nist.gov/publications/detail/sp/800-53/rev-5/final'',
       date = Some ''2024-10-30'',
       summary = Some ''Updated security controls with new guidance for DevOps, cloud computing, and mobile device security.'',
       source = Some ''NIST CSRC (Demo)'',
       content = Some ''Security controls for software development environments including continuous monitoring requirements, automated security testing integration, configuration management controls, and access control for development environments.'',
       relevance_score = None\<rparr>]"

definition get_demo_nist_data :: "int \<Rightarrow> article list" where
  "get_demo_nist_data limit = py_slice_to limit demo_articles"

text \<open>
  The scraper's loop over the result elements. It stops at \<open>limit\<close> accepted
  publications, completes a relative link, and accepts a title longer than 10
  characters that names one of four markers.
\<close>

fun csrc_results :: "string \<Rightarrow> string \<Rightarrow> int \<Rightarrow> int \<Rightarrow> (string \<times> string) list \<Rightarrow> article list" where
  "csrc_results term stamp limit count [] = []"
| "csrc_results term stamp limit count ((title0, link0) # rest) =
     (if limit \<le> count then []
      else let link = (if link0 \<noteq> [] \<and> \<not> prefix ''http'' link0 then NIST_BASE_URL @ link0 else link0)
           in if title0 \<noteq> [] \<and> 10 < length title0 \<and>
                 list_ex (\<lambda>keyword. py_in keyword (py_lower title0))
                   [''sp 800'', ''special publication'', ''cybersecurity'', ''framework'']
              then \<lparr>title = Some title0, url = Some link, date = Some stamp,
                    summary = Some (''NIST publication related to '' @ term),
                    source = Some ''NIST CSRC'', content = None, relevance_score = None\<rparr>
                   # csrc_results term stamp limit (count + 1) rest
              else csrc_results term stamp limit count rest)"

definition search_nist_csrc :: "env \<Rightarrow> string \<Rightarrow> int \<Rightarrow> article list" where
  "search_nist_csrc E term limit =
     (let search_url = ''https://csrc.nist.gov/search?q='' @
                       map (\<lambda>c. if c = CHR '' '' then CHR ''+'' else c) term
      in case http_get_results E search_url of
           Inl e \<Rightarrow> []
         | Inr search_results \<Rightarrow> csrc_results term (today E) limit 0 search_results)"

definition google_search_nist :: "env \<Rightarrow> string option \<Rightarrow> int \<Rightarrow> article list" where
  "google_search_nist E query limit =
     (if \<not> truthy (google_api_key E) \<or> \<not> truthy (search_engine_id E) then []
      else let search_query = ''NIST SP 800 '' @
                 (if truthy query then the query else ''cybersecurity framework'') @
                 '' site:nist.gov''
           in case custom_search E search_query (min limit 10) of
                Inl e \<Rightarrow> []
              | Inr items \<Rightarrow>
                  map (\<lambda>(t, l, d, s). \<lparr>title = Some t, url = Some l, date = Some d, summary = Some s,
                         source = Some ''Google Search'', content = None, relevance_score = None\<rparr>)
                    (py_slice_to limit items))"

section \<open>Retrieval aggregator\<close>

text \<open>The loop over the first three search terms; \<open>articles\<close> is the accumulator.\<close>

fun search_terms_loop :: "env \<Rightarrow> int \<Rightarrow> string list \<Rightarrow> article list \<Rightarrow> article list" where
  "search_terms_loop E max_results [] articles = articles"
| "search_terms_loop E max_results (term # terms) articles =
     (let articles = articles @ search_nist_csrc E term (max_results div 3)
      in if max_results \<le> int (length articles) then articles
         else search_terms_loop E max_results terms articles)"

definition search_nist_updates :: "env \<Rightarrow> string option \<Rightarrow> int \<Rightarrow> article list" where
  "search_nist_updates E topic max_results =
     (let search_terms = NIST_SEARCH_TERMS @ (if truthy topic then [the topic] else []);
          articles = search_terms_loop E max_results (py_slice_to 3 search_terms) [];
          articles =
            (if int (length articles) < max_results \<and> truthy (google_api_key E) \<and>
                truthy (search_engine_id E)
             then articles @ google_search_nist E topic (max_results - int (length articles))
             else articles);
          articles =
            (if int (length articles) < max_results
             then articles @ get_demo_nist_data (max_results - int (length articles))
             else articles);
          articles = (if length articles = 0 then get_demo_nist_data max_results else articles)
      in py_slice_to max_results articles)"

section \<open>Content extractor\<close>

text \<open>
  The extractor returns the content it found, or the empty string, together with the
  URLs it requested from the network.
\<close>

definition extract_single_article :: "env \<Rightarrow> article \<Rightarrow> string \<times> string list" where
  "extract_single_article E a =
     (let u = dict_get (url a) []
      in if u = [] then ([], [])
         else case http_get_text E u of
                Inl e \<Rightarrow> ([], [u])
              | Inr None \<Rightarrow> ([], [u])
              | Inr (Some text) \<Rightarrow> (py_slice_to 50000 text, [u]))"

text \<open>
  The loop of \<open>extract_content\<close>, with the extracted articles and the requested URLs as
  accumulators.
\<close>

fun extract_loop :: "env \<Rightarrow> article list \<Rightarrow> article list \<Rightarrow> string list \<Rightarrow> article list \<times> string list" where
  "extract_loop E [] extracted_articles requests = (extracted_articles, requests)"
| "extract_loop E (a # rest) extracted_articles requests =
     (if truthy (content a) then extract_loop E rest (extracted_articles @ [a]) requests
      else let (c, rs) = extract_single_article E a
           in if c \<noteq> []
              then extract_loop E rest (extracted_articles @ [a\<lparr>content := Some c\<rparr>]) (requests @ rs)
              else extract_loop E rest extracted_articles (requests @ rs))"

definition extract_content :: "env \<Rightarrow> article list \<Rightarrow> article list \<times> string list" where
  "extract_content E articles = extract_loop E articles [] []"

section \<open>Relevance filter\<close>

text \<open>
  The loop of the filter over an assessment that returns a score or raises; an article
  whose assessment raises is skipped.
\<close>

fun filter_loop :: "(article \<Rightarrow> error + rat) \<Rightarrow> article list \<Rightarrow> article list \<Rightarrow> article list" where
  "filter_loop assess [] filtered_articles = filtered_articles"
| "filter_loop assess (a # rest) filtered_articles =
     (case assess a of
        Inl e \<Rightarrow> filter_loop assess rest filtered_articles
      | Inr score \<Rightarrow>
          if float_lit (7 / 10) < score
          then filter_loop assess rest (filtered_articles @ [a\<lparr>relevance_score := Some score\<rparr>])
          else filter_loop assess rest filtered_articles)"

definition filter_it_relevant_content :: "article list \<Rightarrow> article list" where
  "filter_it_relevant_content articles = filter_loop assess_it_relevance articles []"

section \<open>Report renderer\<close>

subsection \<open>Formatting\<close>

text \<open>\<open>str(n)\<close> for a natural number, and padding with zeros on the left.\<close>

fun str_nat :: "nat \<Rightarrow> string" where
  "str_nat n =
     (if n < 10 then [char_of (48 + n)] else str_nat (n div 10) @ [char_of (48 + n mod 10)])"

definition zfill :: "nat \<Rightarrow> string \<Rightarrow> string" where
  "zfill w s = replicate (w - length s) CHR ''0'' @ s"

text \<open>
  The value handed to a replacement field is a string or a float. The format \<open>.2f\<close>
  prints a float with two decimals, rounded from its exact value, and raises
  \<open>ValueError\<close> on a string.
\<close>

datatype pyval = PyStr string | PyFloat rat

definition fixed2 :: "rat \<Rightarrow> string" where
  "fixed2 r =
     (let n = nat (round_half_even (\<bar>r\<bar> * 100))
      in (if r < 0 then ''-'' else []) @ str_nat (n div 100) @ ''.'' @ zfill 2 (str_nat (n mod 100)))"

fun format_2f :: "pyval \<Rightarrow> error + string" where
  "format_2f (PyStr s) = Inl ValueError"
| "format_2f (PyFloat r) = Inr (fixed2 r)"

subsection \<open>The clock\<close>

text \<open>
  \<open>datetime.now()\<close> reads the system clock. The renderer reads it three times: for the
  \<open>date\<close> of the front matter, for the \<open>Generated\<close> line and for the footer.
\<close>

record datetime =
  year :: nat
  month :: nat
  day :: nat
  hour :: nat
  minute :: nat
  second :: nat
  microsecond :: nat

record clock =
  now_front :: datetime
  now_generated :: datetime
  now_footer :: datetime

definition strftime_date :: "datetime \<Rightarrow> string" where
  "strftime_date t =
     zfill 4 (str_nat (year t)) @ ''-'' @ zfill 2 (str_nat (month t)) @ ''-'' @
     zfill 2 (str_nat (day t))"

definition strftime_time :: "datetime \<Rightarrow> string" where
  "strftime_time t =
     zfill 2 (str_nat (hour t)) @ '':'' @ zfill 2 (str_nat (minute t)) @ '':'' @
     zfill 2 (str_nat (second t))"

text \<open>\<open>strftime('%Y-%m-%d %H:%M:%S')\<close> and \<open>isoformat()\<close>.\<close>

definition strftime_seconds :: "datetime \<Rightarrow> string" where
  "strftime_seconds t = strftime_date t @ '' '' @ strftime_time t"

definition isoformat :: "datetime \<Rightarrow> string" where
  "isoformat t =
     strftime_date t @ ''T'' @ strftime_time t @
     (if microsecond t = 0 then [] else ''.'' @ zfill 6 (str_nat (microsecond t)))"

subsection \<open>The pieces of the report\<close>

definition nl :: string where
  "nl = [CHR 0x0A]"

definition dq :: string where
  "dq = [CHR 0x22]"

definition unlines :: "string list \<Rightarrow> string" where
  "unlines ls = concat (map (\<lambda>l. l @ nl) ls)"

definition report_header :: "clock \<Rightarrow> nat \<Rightarrow> string" where
  "report_header c n = unlines
     [''---'',
      ''title: '' @ dq @ ''NIST SP 800 Compliance Update Summary'' @ dq,
      ''date: '' @ dq @ isoformat (now_front c) @ dq,
      ''articles_processed: '' @ str_nat n,
      ''generated_by: '' @ dq @ ''NIST Compliance Workflow Agent'' @ dq,
      ''---'',
      [],
      ''# NIST SP 800 Compliance Update Summary'',
      [],
      ''**Generated:** '' @ strftime_seconds (now_generated c),
      ''**Articles Processed:** '' @ str_nat n,
      [],
      ''## Latest Updates'',
      []]"

text \<open>
  The finding block of the article numbered \<open>i\<close>. \<open>finding_text\<close> is the text of
  the block around the formatted score; formatting the score can raise.
\<close>

definition finding_text :: "nat \<Rightarrow> article \<Rightarrow> string \<Rightarrow> string" where
  "finding_text i a score = unlines
     [[],
      ''### '' @ str_nat i @ ''. '' @ dict_get (title a) ''Untitled'',
      [],
      ''- **URL:** '' @ dict_get (url a) ''N/A'',
      ''- **Date:** '' @ dict_get (date a) ''N/A'',
      ''- **Source:** '' @ dict_get (source a) ''N/A'',
      ''- **Relevance Score:** '' @ score,
      ''- **Summary:** '' @ dict_get (summary a) ''N/A'',
      []]"

definition finding_block :: "nat \<Rightarrow> article \<Rightarrow> error + string" where
  "finding_block i a =
     (case format_2f (case relevance_score a of None \<Rightarrow> PyStr ''N/A'' | Some r \<Rightarrow> PyFloat r) of
        Inl e \<Rightarrow> Inl e
      | Inr score \<Rightarrow> Inr (finding_text i a score))"

definition recommendations :: string where
  "recommendations = unlines
     [[],
      ''## Key Recommendations for IT Teams'',
      [],
      ''Based on the analyzed NIST updates, consider the following actions:'',
      [],
      ''- [ ] **Review Security Controls**: Assess current implementation of NIST SP 800-53 controls'',
      ''- [ ] **Update SDLC Processes**: Integrate new secure development practices from SP 800-218'',
      ''- [ ] **Enhance CI/CD Security**: Implement automated security testing in development pipelines'',
      ''- [ ] **Supply Chain Assessment**: Review third-party components and implement SBOM practices'',
      ''- [ ] **Access Control Review**: Update authentication and authorization mechanisms'',
      ''- [ ] **Incident Response**: Revise incident response procedures based on new guidance'',
      [],
      ''## Next Steps'',
      [],
      ''1. Review each publication in detail'',
      ''2. Conduct gap analysis against current practices'',
      ''3. Develop implementation roadmap'',
      ''4. Train development teams on new requirements'',
      ''5. Update security policies and procedures'',
      [],
      ''## Source Citations'',
      []]"

definition citation :: "nat \<Rightarrow> article \<Rightarrow> string" where
  "citation i a =
     str_nat i @ ''. ['' @ dict_get (title a) ''Untitled'' @ '']('' @ dict_get (url a) ''#'' @ '')'' @ nl"

definition report_footer :: "clock \<Rightarrow> string" where
  "report_footer c = unlines
     [[],
      [],
      ''---'',
      ''*This summary was generated automatically by the NIST Compliance Workflow Agent on '' @
        strftime_seconds (now_footer c) @ ''*'']"

subsection \<open>The renderer\<close>

text \<open>
  The two loops over \<open>enumerate(articles, 1)\<close>, each appending to the summary built so
  far. The first stops at the first block whose formatting raises.
\<close>

fun findings_loop :: "nat \<Rightarrow> article list \<Rightarrow> string \<Rightarrow> error + string" where
  "findings_loop i [] summary_acc = Inr summary_acc"
| "findings_loop i (a # rest) summary_acc =
     (case finding_block i a of
        Inl e \<Rightarrow> Inl e
      | Inr block \<Rightarrow> findings_loop (i + 1) rest (summary_acc @ block))"

fun citations_loop :: "nat \<Rightarrow> article list \<Rightarrow> string \<Rightarrow> string" where
  "citations_loop i [] summary_acc = summary_acc"
| "citations_loop i (a # rest) summary_acc =
     citations_loop (i + 1) rest (summary_acc @ citation i a)"

definition generate_fallback_summary :: "clock \<Rightarrow> article list \<Rightarrow> error + string" where
  "generate_fallback_summary c articles =
     (case findings_loop 1 articles (report_header c (length articles)) of
        Inl e \<Rightarrow> Inl e
      | Inr summary_acc \<Rightarrow>
          Inr (citations_loop 1 articles (summary_acc @ recommendations) @ report_footer c))"

definition generate_summary :: "clock \<Rightarrow> article list \<Rightarrow> error + string" where
  "generate_summary c articles = generate_fallback_summary c articles"

section \<open>Request surface\<close>

record workflow_request =
  topic :: "string option"
  max_articles :: int

record workflow_response =
  status :: string
  summary_url :: string
  pr_url :: string
  articles_processed :: nat

text \<open>The body of the \<open>try\<close> block of \<open>run_workflow\<close>: a response, or the exception raised.\<close>

definition workflow_steps :: "env \<Rightarrow> clock \<Rightarrow> workflow_request \<Rightarrow> error + workflow_response" where
  "workflow_steps E c request =
     (let articles = search_nist_updates E (topic request) (max_articles request)
      in if articles = [] then Inl (HTTPException 404 ''No NIST updates found'')
         else
           let articles_with_content = fst (extract_content E articles);
               relevant_articles = filter_it_relevant_content articles_with_content
           in if relevant_articles = []
              then Inl (HTTPException 404 ''No relevant articles found for IT organizations'')
              else case generate_summary c relevant_articles of
                     Inl e \<Rightarrow> Inl e
                   | Inr summary_text \<Rightarrow>
                       if github_client E
                       then (case publish E summary_text relevant_articles of
                               Inr (s_url, p_url) \<Rightarrow>
                                 Inr \<lparr>status = ''success'', summary_url = s_url, pr_url = p_url,
                                      articles_processed = length relevant_articles\<rparr>
                             | Inl github_error \<Rightarrow>
                                 Inr \<lparr>status = ''success'',
                                      summary_url = ''GitHub publishing failed - summary generated successfully'',
                                      pr_url = ''GitHub publishing failed - summary generated successfully'',
                                      articles_processed = length relevant_articles\<rparr>)
                       else Inr \<lparr>status = ''success'',
                                 summary_url = ''GitHub not configured - summary generated successfully'',
                                 pr_url = ''GitHub not configured - no PR created'',
                                 articles_processed = length relevant_articles\<rparr>)"

text \<open>
  \<open>except Exception as e: raise HTTPException(status_code=500, detail=str(e))\<close> encloses
  the whole body, and \<open>HTTPException\<close> is itself an \<open>Exception\<close>.
\<close>

definition run_workflow :: "env \<Rightarrow> clock \<Rightarrow> workflow_request \<Rightarrow> error + workflow_response" where
  "run_workflow E c request =
     (case workflow_steps E c request of
        Inl e \<Rightarrow> Inl (HTTPException 500 (exception_str E e))
      | Inr response \<Rightarrow> Inr response)"

section \<open>Example inputs\<close>

text \<open>An environment without credentials in which every request fails.\<close>

definition offline_env :: env where
  "offline_env =
     \<lparr>google_api_key = None, search_engine_id = None, github_client = False, today = ''2025-01-01'',
      http_get_results = (\<lambda>u. Inl RequestError), custom_search = (\<lambda>q n. Inl RequestError),
      http_get_text = (\<lambda>u. Inl RequestError), publish = (\<lambda>s as. Inl RequestError),
      exception_str = (\<lambda>e. [])\<rparr>"

text \<open>
  An environment in which every listing page shows one publication and no publication
  page can be fetched.
\<close>

definition unreachable_env :: env where
  "unreachable_env =
     offline_env\<lparr>http_get_results :=
       (\<lambda>u. Inr [(''NIST Cybersecurity Framework 2.0'', ''/publications/detail/csf/2.0'')])\<rparr>"

text \<open>Two readings of the clock, one second apart.\<close>

definition noon :: datetime where
  "noon = \<lparr>year = 2025, month = 1, day = 1, hour = 12, minute = 0, second = 0, microsecond = 0\<rparr>"

definition clock_a :: clock where
  "clock_a = \<lparr>now_front = noon, now_generated = noon, now_footer = noon\<rparr>"

definition clock_b :: clock where
  "clock_b = \<lparr>now_front = noon\<lparr>second := 1\<rparr>, now_generated = noon\<lparr>second := 1\<rparr>,
               now_footer = noon\<lparr>second := 1\<rparr>\<rparr>"

text \<open>
  An article whose title names one keyword, with a given content; and a content of 1000
  characters with another keyword in its last four characters.
\<close>

definition long_article :: "string \<Rightarrow> article" where
  "long_article c =
     \<lparr>title = Some ''NIST update'', url = Some ''https://csrc.nist.gov/news'', date = Some ''2025-01-01'',
      summary = Some [], source = Some ''NIST CSRC'', content = Some c, relevance_score = None\<rparr>"

definition long_content :: string where
  "long_content = replicate 996 CHR ''x'' @ ''sbom''"

text \<open>
  An article that carries the float of a given literal as its score, and the assessment
  that reads the score an article carries.
\<close>

definition scored_article :: "rat \<Rightarrow> article" where
  "scored_article s = long_article []\<lparr>relevance_score := Some (float_lit s)\<rparr>"

definition stored_score :: "article \<Rightarrow> rat" where
  "stored_score a = dict_get (relevance_score a) 0"

section \<open>Properties of the float model\<close>

lemma round_half_even_nonneg: "0 \<le> x \<Longrightarrow> 0 \<le> round_half_even x"
  by (auto simp: round_half_even_def Let_def)

lemma round_half_even_ge: "of_int n \<le> x \<Longrightarrow> n \<le> round_half_even x"
proof -
  assume "of_int n \<le> x"
  then have "n \<le> \<lfloor>x\<rfloor>" by (simp add: le_floor_iff)
  then show ?thesis by (auto simp: round_half_even_def Let_def)
qed

lemma round_half_even_le: "x \<le> of_int n \<Longrightarrow> round_half_even x \<le> n"
proof (cases "x = of_int n")
  case True
  then show ?thesis by (simp add: round_half_even_def Let_def)
next
  case False
  assume "x \<le> of_int n"
  with False have "x < of_int n" by simp
  then have "\<lfloor>x\<rfloor> < n" by (simp add: floor_less_iff)
  then show ?thesis by (auto simp: round_half_even_def Let_def)
qed

lemma round_half_even_mono: "x \<le> y \<Longrightarrow> round_half_even x \<le> round_half_even y"
proof -
  assume xy: "x \<le> y"
  then have f: "\<lfloor>x\<rfloor> \<le> \<lfloor>y\<rfloor>" by (rule floor_mono)
  show ?thesis
  proof (cases "\<lfloor>x\<rfloor> = \<lfloor>y\<rfloor>")
    case True
    with xy show ?thesis by (auto simp: round_half_even_def Let_def)
  next
    case False
    with f have "\<lfloor>x\<rfloor> + 1 \<le> \<lfloor>y\<rfloor>" by simp
    moreover have "round_half_even x \<le> \<lfloor>x\<rfloor> + 1" by (auto simp: round_half_even_def Let_def)
    moreover have "\<lfloor>y\<rfloor> \<le> round_half_even y" by (auto simp: round_half_even_def Let_def)
    ultimately show ?thesis by linarith
  qed
qed

lemma double_round_nonneg: "0 \<le> x \<Longrightarrow> 0 \<le> double_round x"
  by (auto simp: double_round_def Let_def sgn_if round_half_even_nonneg)

lemma quotient_of_pos:
  assumes "0 < x" "quotient_of x = (p, q)"
  shows "0 < p" and "0 < q" and "x = of_int p / of_int q"
proof -
  show q: "0 < q" using assms(2) quotient_of_denom_pos by blast
  show x: "x = of_int p / of_int q" using assms(2) quotient_of_div by blast
  show "0 < p" using assms(1) q x by (simp add: zero_less_divide_iff)
qed

lemma bitlen_lower: "0 < p \<Longrightarrow> (2::rat) ^ nat (bitlen p - 1) \<le> of_int p"
  using bitlen_bounds[of p] by (metis of_int_le_iff of_int_numeral of_int_power)

lemma bitlen_upper: "0 < p \<Longrightarrow> of_int p < (2::rat) ^ nat (bitlen p)"
  using bitlen_bounds[of p] by (metis of_int_less_iff of_int_numeral of_int_power)

lemma bitlen_pos: "0 < p \<Longrightarrow> 1 \<le> bitlen p"
  by (auto simp: bitlen_alt_def)

lemma ilog2_lower:
  assumes "0 < x"
  shows "2 powi (ilog2 x) \<le> x"
proof -
  obtain p q where pq: "quotient_of x = (p, q)" by (cases "quotient_of x")
  note f = quotient_of_pos[OF assms pq]
  define d where "d = bitlen p - bitlen q"
  show ?thesis
  proof (cases "2 powi d \<le> x")
    case True
    then show ?thesis by (simp add: ilog2_def pq d_def)
  next
    case False
    then have e: "ilog2 x = d - 1" by (simp add: ilog2_def pq d_def)
    have "d - 1 = (bitlen p - 1) - bitlen q" by (simp add: d_def)
    then have "(2::rat) powi (d - 1) = 2 powi (bitlen p - 1) / 2 powi (bitlen q)"
      by (simp add: power_int_diff)
    also have "\<dots> = 2 ^ nat (bitlen p - 1) / 2 ^ nat (bitlen q)"
      using bitlen_pos[OF f(1)] bitlen_pos[OF f(2)] by (simp add: power_int_def)
    also have "\<dots> \<le> of_int p / of_int q"
      using bitlen_lower[OF f(1)] bitlen_upper[OF f(2)] f(1,2) by (intro frac_le) auto
    finally show ?thesis using e f(3) by simp
  qed
qed

lemma ilog2_upper:
  assumes "0 < x"
  shows "x < 2 powi (ilog2 x + 1)"
proof -
  obtain p q where pq: "quotient_of x = (p, q)" by (cases "quotient_of x")
  note f = quotient_of_pos[OF assms pq]
  define d where "d = bitlen p - bitlen q"
  show ?thesis
  proof (cases "2 powi d \<le> x")
    case False
    then show ?thesis by (simp add: ilog2_def pq d_def)
  next
    case True
    then have e: "ilog2 x = d" by (simp add: ilog2_def pq d_def)
    have "of_int p / of_int q < (2::rat) ^ nat (bitlen p) / 2 ^ nat (bitlen q - 1)"
      using bitlen_upper[OF f(1)] bitlen_lower[OF f(2)] f(1,2) by (intro frac_less) auto
    also have "\<dots> = 2 powi (bitlen p) / 2 powi (bitlen q - 1)"
      using bitlen_pos[OF f(1)] bitlen_pos[OF f(2)] by (simp add: power_int_def)
    also have "\<dots> = 2 powi (bitlen p - (bitlen q - 1))"
      by (simp add: power_int_diff)
    also have "bitlen p - (bitlen q - 1) = d + 1" by (simp add: d_def)
    finally show ?thesis using e f(3) by simp
  qed
qed

lemma powi2_less_imp_less: "(2::rat) powi a < 2 powi b \<Longrightarrow> a < b"
proof (rule ccontr)
  assume l: "(2::rat) powi a < 2 powi b" and "\<not> a < b"
  then have "b \<le> a" by simp
  then have "(2::rat) powi b \<le> 2 powi a" by (intro power_int_increasing) auto
  with l show False by simp
qed

lemma ilog2_mono:
  assumes "0 < x" "x \<le> y"
  shows "ilog2 x \<le> ilog2 y"
proof -
  have "2 powi (ilog2 x) \<le> x" using assms(1) by (rule ilog2_lower)
  also have "x \<le> y" by fact
  also have "y < 2 powi (ilog2 y + 1)" using assms by (intro ilog2_upper) simp
  finally have "ilog2 x < ilog2 y + 1" by (rule powi2_less_imp_less)
  then show ?thesis by simp
qed

text \<open>On a positive number the rounding works in the binade of the number.\<close>

lemma double_round_pos:
  assumes "0 < x"
  shows "double_round x =
           of_int (round_half_even (x / 2 powi (max (ilog2 x) (- 1022) - 52))) *
           2 powi (max (ilog2 x) (- 1022) - 52)"
  using assms by (simp add: double_round_def Let_def)

lemma double_round_ge_powi:
  assumes "0 < x" "2 powi e \<le> x" "e = max (ilog2 x) (- 1022)"
  shows "2 powi e \<le> double_round x"
proof -
  define q :: rat where "q = 2 powi (e - 52)"
  have q0: "0 < q" by (simp add: q_def)
  have dr: "double_round x = of_int (round_half_even (x / q)) * q"
    using double_round_pos[OF assms(1)] assms(3) by (simp add: q_def)
  have q52: "(2::rat) powi e = of_int (2 ^ 52) * q"
    by (simp add: q_def power_int_diff)
  have "of_int (2 ^ 52) \<le> x / q" using assms(2) q0 q52 by (simp add: pos_le_divide_eq)
  then have "2 ^ 52 \<le> round_half_even (x / q)" by (rule round_half_even_ge)
  then have "(of_int (2 ^ 52) :: rat) \<le> of_int (round_half_even (x / q))"
    by (simp only: of_int_le_iff)
  then have "of_int (2 ^ 52) * q \<le> of_int (round_half_even (x / q)) * q"
    using q0 by (rule mult_right_mono[OF _ less_imp_le])
  then show ?thesis using dr q52 by simp
qed

lemma double_round_le_powi:
  assumes "0 < x" "x \<le> 2 powi (e + 1)" "e = max (ilog2 x) (- 1022)"
  shows "double_round x \<le> 2 powi (e + 1)"
proof -
  define q :: rat where "q = 2 powi (e - 52)"
  have q0: "0 < q" by (simp add: q_def)
  have dr: "double_round x = of_int (round_half_even (x / q)) * q"
    using double_round_pos[OF assms(1)] assms(3) by (simp add: q_def)
  have "(2::rat) powi ((e + 1) - 53) = 2 powi (e + 1) / 2 powi 53"
    by (rule power_int_diff) simp
  moreover have "(e + 1) - 53 = e - 52" by simp
  ultimately have "q = 2 powi (e + 1) / 2 powi 53"
    unfolding q_def by simp
  then have q53: "(2::rat) powi (e + 1) = of_int (2 ^ 53) * q"
    by simp
  have "x / q \<le> of_int (2 ^ 53)" using assms(2) q0 q53 by (simp add: pos_divide_le_eq)
  then have "round_half_even (x / q) \<le> 2 ^ 53" by (rule round_half_even_le)
  then have "(of_int (round_half_even (x / q)) :: rat) \<le> of_int (2 ^ 53)"
    by (simp only: of_int_le_iff)
  then have "of_int (round_half_even (x / q)) * q \<le> of_int (2 ^ 53) * q"
    using q0 by (rule mult_right_mono[OF _ less_imp_le])
  then show ?thesis using dr q53 by simp
qed

lemma double_round_mono:
  assumes "0 \<le> x" "x \<le> y"
  shows "double_round x \<le> double_round y"
proof (cases "x = 0")
  case True
  then show ?thesis using assms double_round_nonneg[of y] by (simp add: double_round_def)
next
  case False
  then have x0: "0 < x" and y0: "0 < y" using assms by auto
  define ex where "ex = max (ilog2 x) (- 1022)"
  define ey where "ey = max (ilog2 y) (- 1022)"
  have exy: "ex \<le> ey" using ilog2_mono[OF x0 assms(2)] by (simp add: ex_def ey_def)
  show ?thesis
  proof (cases "ex = ey")
    case True
    have "0 < (2::rat) powi (ey - 52)" by simp
    then have "x / 2 powi (ey - 52) \<le> y / 2 powi (ey - 52)"
      using assms(2) by (simp add: divide_right_mono)
    then have "round_half_even (x / 2 powi (ey - 52)) \<le> round_half_even (y / 2 powi (ey - 52))"
      by (rule round_half_even_mono)
    then have "(of_int (round_half_even (x / 2 powi (ey - 52))) :: rat) * 2 powi (ey - 52)
                 \<le> of_int (round_half_even (y / 2 powi (ey - 52))) * 2 powi (ey - 52)"
      by (intro mult_right_mono) simp_all
    then show ?thesis
      using double_round_pos[OF x0] double_round_pos[OF y0] True
      by (simp add: ex_def ey_def)
  next
    case False
    with exy have lt: "ex + 1 \<le> ey" by simp
    then have "ey = ilog2 y" by (auto simp: ex_def ey_def max_def split: if_splits)
    then have "2 powi ey \<le> y" using ilog2_lower[OF y0] by simp
    with y0 have low: "2 powi ey \<le> double_round y"
      by (rule double_round_ge_powi) (simp add: ey_def)
    have "x < 2 powi (ilog2 x + 1)" using x0 by (rule ilog2_upper)
    also have "\<dots> \<le> 2 powi (ex + 1)" by (intro power_int_increasing) (auto simp: ex_def)
    finally have "x \<le> 2 powi (ex + 1)" by simp
    with x0 have "double_round x \<le> 2 powi (ex + 1)"
      by (rule double_round_le_powi) (simp add: ex_def)
    also have "\<dots> \<le> 2 powi ey" using lt by (intro power_int_increasing) auto
    finally show ?thesis using low by simp
  qed
qed

lemma double_round_ge_one:
  assumes "1 \<le> x"
  shows "1 \<le> double_round x"
proof -
  have "double_round 1 \<le> double_round x" using assms by (intro double_round_mono) auto
  moreover have "double_round 1 = 1" by code_simp
  ultimately show ?thesis by simp
qed

lemma float_lit_08: "float_lit (8 / 10) = 3602879701896397 / 4503599627370496"
  by code_simp

lemma float_lit_07: "float_lit (7 / 10) = 3152519739159347 / 4503599627370496"
  by code_simp

section \<open>The relevance scorer\<close>

lemma raw_score_nonneg: "0 \<le> raw_score a"
  unfolding raw_score_def int_truediv_def by (rule double_round_nonneg) simp

text \<open>
  Claim C3 (score boundedness). For every article, whatever its title, summary, content
  and source are and whether they are present or empty, the score returned by the
  keyword scorer lies between 0 and 1.
\<close>

theorem score_bounded:
  "0 \<le> keyword_based_relevance a \<and> keyword_based_relevance a \<le> 1"
proof
  have "0 \<le> (if is_demo a then max (raw_score a) (float_lit (8 / 10)) else raw_score a)"
    using raw_score_nonneg[of a] by (simp add: max_def)
  then have "0 \<le> float_mul (if is_demo a then max (raw_score a) (float_lit (8 / 10)) else raw_score a) 3"
    unfolding float_mul_def by (intro double_round_nonneg) simp
  then show "0 \<le> keyword_based_relevance a"
    by (simp add: keyword_based_relevance_def Let_def)
  show "keyword_based_relevance a \<le> 1"
    by (simp add: keyword_based_relevance_def Let_def)
qed

text \<open>
  Claim C4 (demo floor). An article whose source contains \<open>demo\<close>, in any mix of upper
  and lower case, scores at least 0.8: the floor of 0.8 is applied to the score before
  it is multiplied by 3 and capped at 1. The bound holds for the number 0.8 and for the
  float that the literal \<open>0.8\<close> denotes.
\<close>

theorem demo_floor:
  assumes "source a = Some s" and "py_in ''demo'' (py_lower s)"
  shows "8 / 10 \<le> keyword_based_relevance a \<and> float_lit (8 / 10) \<le> keyword_based_relevance a"
proof -
  have d: "is_demo a" using assms by (simp add: is_demo_def dict_get_def)
  have "(1::rat) / 3 \<le> float_lit (8 / 10)"
    unfolding float_lit_08 by simp
  also have "\<dots> \<le> max (raw_score a) (float_lit (8 / 10))"
    by (rule max.cobounded2)
  finally have "1 \<le> max (raw_score a) (float_lit (8 / 10)) * 3"
    by simp
  then have "1 \<le> float_mul (max (raw_score a) (float_lit (8 / 10))) 3"
    unfolding float_mul_def by (rule double_round_ge_one)
  then have "keyword_based_relevance a = 1"
    using d by (simp add: keyword_based_relevance_def Let_def)
  moreover have "float_lit (8 / 10) \<le> 1"
    unfolding float_lit_08 by simp
  ultimately show ?thesis by simp
qed

theorem demo_floor_witness:
  "source (hd demo_articles) = Some ''NIST CSRC (Demo)'' \<and>
   py_in ''demo'' (py_lower ''NIST CSRC (Demo)'') \<and>
   8 / 10 \<le> keyword_based_relevance (hd demo_articles) \<and>
   float_lit (8 / 10) \<le> keyword_based_relevance (hd demo_articles)"
proof -
  have s: "source (hd demo_articles) = Some ''NIST CSRC (Demo)''"
    by (simp add: demo_articles_def)
  have p: "py_in ''demo'' (py_lower ''NIST CSRC (Demo)'')"
    by code_simp
  show ?thesis using s p demo_floor[OF s p] by simp
qed

section \<open>The retrieval aggregator\<close>

lemma search_terms_loop_empty:
  assumes "0 < max_results" and "\<forall>term limit. search_nist_csrc E term limit = []"
  shows "search_terms_loop E max_results terms [] = []"
  using assms by (induction terms) simp_all

lemma length_demo_articles: "length demo_articles = 3"
  by (simp add: demo_articles_def)

text \<open>
  Claim C1 (non-starvation). Let \<open>max_results\<close> be positive, let the scraped adapter
  yield nothing for any term and limit, and let the search adapter yield nothing (its
  credentials are missing, or the request fails or finds nothing). Then the aggregator
  returns the first \<open>max_results\<close> articles of the demo corpus: exactly
  \<open>min max_results 3\<close> documents.
\<close>

theorem aggregator_fallback_only:
  assumes "0 < max_results"
    and "\<forall>term limit. search_nist_csrc E term limit = []"
    and "\<forall>limit. google_search_nist E topic_opt limit = []"
  shows "search_nist_updates E topic_opt max_results = take (nat max_results) demo_articles \<and>
         int (length (search_nist_updates E topic_opt max_results)) = min max_results 3"
proof -
  have loop: "search_terms_loop E max_results ts [] = []" for ts
    using assms(1,2) by (rule search_terms_loop_empty)
  have demo: "get_demo_nist_data max_results = take (nat max_results) demo_articles"
    using assms(1) by (simp add: get_demo_nist_data_def py_slice_to_def)
  have "search_nist_updates E topic_opt max_results = take (nat max_results) demo_articles"
    using assms(1,3) by (simp add: search_nist_updates_def Let_def loop demo py_slice_to_def)
  then show ?thesis using assms(1) by (simp add: length_demo_articles)
qed

theorem aggregator_fallback_only_witness:
  "(0::int) < 2 \<and>
   (\<forall>term limit. search_nist_csrc offline_env term limit = []) \<and>
   (\<forall>limit. google_search_nist offline_env None limit = []) \<and>
   search_nist_updates offline_env None 2 = take 2 demo_articles \<and>
   length (search_nist_updates offline_env None 2) = 2"
proof -
  have a: "(0::int) < 2" by simp
  have b: "\<forall>term limit. search_nist_csrc offline_env term limit = []"
    by (simp add: search_nist_csrc_def offline_env_def)
  have c: "\<forall>limit. google_search_nist offline_env None limit = []"
    by (simp add: google_search_nist_def offline_env_def truthy_def)
  show ?thesis using a b c aggregator_fallback_only[OF a b c] by (simp add: length_demo_articles)
qed

section \<open>The content extractor\<close>

lemma extract_loop_acc:
  "extract_loop E docs acc reqs =
     (acc @ fst (extract_loop E docs [] []), reqs @ snd (extract_loop E docs [] []))"
proof (induction docs arbitrary: acc reqs)
  case Nil
  then show ?case by simp
next
  case (Cons a docs)
  define F where "F = fst (extract_loop E docs [] [])"
  define R where "R = snd (extract_loop E docs [] [])"
  have IH: "extract_loop E docs acc' reqs' = (acc' @ F, reqs' @ R)" for acc' reqs'
    unfolding F_def R_def by (rule Cons.IH)
  show ?case by (simp add: IH split: prod.splits)
qed

lemma extract_loop_append:
  "extract_loop E (xs @ ys) acc reqs =
     (acc @ fst (extract_loop E xs [] []) @ fst (extract_loop E ys [] []),
      reqs @ snd (extract_loop E xs [] []) @ snd (extract_loop E ys [] []))"
proof (induction xs arbitrary: acc reqs)
  case Nil
  show ?case by (simp add: extract_loop_acc[of E ys acc reqs])
next
  case (Cons a xs)
  define F where "F = fst (extract_loop E xs [] [])"
  define R where "R = snd (extract_loop E xs [] [])"
  have acc: "extract_loop E xs acc' reqs' = (acc' @ F, reqs' @ R)" for acc' reqs'
    unfolding F_def R_def by (rule extract_loop_acc)
  have IH: "extract_loop E (xs @ ys) acc' reqs' =
              (acc' @ F @ fst (extract_loop E ys [] []), reqs' @ R @ snd (extract_loop E ys [] []))"
    for acc' reqs'
    unfolding F_def R_def by (rule Cons.IH)
  show ?case by (simp add: IH acc split: prod.splits)
qed

text \<open>
  Claim C7 (pass-through of pre-filled content). An article whose content is set and
  not empty leaves the extractor as it entered it, at its place in the output, and the
  extractor requests nothing from the network for it: in any list, the output and the
  requests are those of the articles before it and of the articles after it, with the
  article itself in between. Alone in the list, the article is the whole output and no
  request is made.
\<close>

theorem extract_prefilled:
  assumes "content a = Some c" and "c \<noteq> []"
  shows "extract_content E [a] = ([a], []) \<and>
         extract_content E (xs @ [a] @ ys) =
           (fst (extract_content E xs) @ [a] @ fst (extract_content E ys),
            snd (extract_content E xs) @ snd (extract_content E ys))"
proof -
  have t: "truthy (content a)" using assms by (simp add: truthy_def)
  then have one: "extract_loop E [a] [] [] = ([a], [])" by simp
  have "extract_loop E (xs @ [a] @ ys) [] [] =
          (fst (extract_loop E xs [] []) @ [a] @ fst (extract_loop E ys [] []),
           snd (extract_loop E xs [] []) @ snd (extract_loop E ys [] []))"
    by (simp only: extract_loop_append[of E xs "[a] @ ys"] extract_loop_append[of E "[a]" ys]
          one fst_conv snd_conv append_Nil)
  then show ?thesis using one by (simp add: extract_content_def)
qed

theorem extract_prefilled_witness:
  "content (hd demo_articles) \<noteq> None \<and> the (content (hd demo_articles)) \<noteq> [] \<and>
   extract_content offline_env [hd demo_articles] = ([hd demo_articles], [])"
proof -
  obtain c where c: "content (hd demo_articles) = Some c" "c \<noteq> []"
    by (simp add: demo_articles_def)
  show ?thesis using c extract_prefilled[OF c, of offline_env "[]" "[]"] by simp
qed

section \<open>The relevance filter\<close>

lemma filter_loop_eq:
  "filter_loop (\<lambda>a. Inr (f a)) docs acc =
     acc @ map (\<lambda>a. a\<lparr>relevance_score := Some (f a)\<rparr>) (filter (\<lambda>a. float_lit (7 / 10) < f a) docs)"
  by (induction docs arbitrary: acc) simp_all

lemma float_lit_example:
  "float_lit (7 / 10) < float_lit (9 / 10)" "float_lit (7 / 10) < float_lit (71 / 100)"
  "\<not> float_lit (7 / 10) < float_lit (2 / 10)"
  by code_simp+

text \<open>
  Claim C6 (filter threshold). The filter keeps, in input order, exactly the articles
  whose score is strictly greater than the float 0.7, each with its score stored under
  \<open>relevance_score\<close>, and drops the others. This holds for the keyword scorer and for
  any assessment that returns a score; with the scores 0.9, 0.7, 0.71 and 0.2 the first
  and the third article are kept.
\<close>

theorem filter_threshold:
  "filter_it_relevant_content docs =
     map (\<lambda>a. a\<lparr>relevance_score := Some (keyword_based_relevance a)\<rparr>)
       (filter (\<lambda>a. float_lit (7 / 10) < keyword_based_relevance a) docs) \<and>
   filter_loop (\<lambda>a. Inr (f a)) docs [] =
     map (\<lambda>a. a\<lparr>relevance_score := Some (f a)\<rparr>) (filter (\<lambda>a. float_lit (7 / 10) < f a) docs) \<and>
   (f a0 = float_lit (9 / 10) \<and> f a1 = float_lit (7 / 10) \<and> f a2 = float_lit (71 / 100) \<and>
    f a3 = float_lit (2 / 10) \<longrightarrow>
    filter_loop (\<lambda>a. Inr (f a)) [a0, a1, a2, a3] [] =
      [a0\<lparr>relevance_score := Some (float_lit (9 / 10))\<rparr>,
       a2\<lparr>relevance_score := Some (float_lit (71 / 100))\<rparr>])"
proof (intro conjI impI)
  show "filter_it_relevant_content docs =
     map (\<lambda>a. a\<lparr>relevance_score := Some (keyword_based_relevance a)\<rparr>)
       (filter (\<lambda>a. float_lit (7 / 10) < keyword_based_relevance a) docs)"
    unfolding filter_it_relevant_content_def
    using filter_loop_eq[of keyword_based_relevance docs "[]"]
    by (simp add: assess_it_relevance_def[abs_def])
  show "filter_loop (\<lambda>a. Inr (f a)) docs [] =
     map (\<lambda>a. a\<lparr>relevance_score := Some (f a)\<rparr>) (filter (\<lambda>a. float_lit (7 / 10) < f a) docs)"
    using filter_loop_eq[of f docs "[]"] by simp
next
  assume h: "f a0 = float_lit (9 / 10) \<and> f a1 = float_lit (7 / 10) \<and>
             f a2 = float_lit (71 / 100) \<and> f a3 = float_lit (2 / 10)"
  have "filter (\<lambda>a. float_lit (7 / 10) < f a) [a0, a1, a2, a3] = [a0, a2]"
    using h float_lit_example by (simp del: divide_le_eq_numeral1 less_divide_eq_numeral1)
  then show "filter_loop (\<lambda>a. Inr (f a)) [a0, a1, a2, a3] [] =
      [a0\<lparr>relevance_score := Some (float_lit (9 / 10))\<rparr>,
       a2\<lparr>relevance_score := Some (float_lit (71 / 100))\<rparr>]"
    using h filter_loop_eq[of f "[a0, a1, a2, a3]" "[]"] by simp
qed

theorem filter_threshold_witness:
  "stored_score (scored_article (9 / 10)) = float_lit (9 / 10) \<and>
   stored_score (scored_article (7 / 10)) = float_lit (7 / 10) \<and>
   stored_score (scored_article (71 / 100)) = float_lit (71 / 100) \<and>
   stored_score (scored_article (2 / 10)) = float_lit (2 / 10) \<and>
   filter_loop (\<lambda>a. Inr (stored_score a))
     [scored_article (9 / 10), scored_article (7 / 10), scored_article (71 / 100),
      scored_article (2 / 10)] [] =
     [scored_article (9 / 10), scored_article (71 / 100)]"
proof -
  have s: "stored_score (scored_article x) = float_lit x" for x
    by (simp add: stored_score_def scored_article_def dict_get_def)
  have u: "scored_article x\<lparr>relevance_score := Some (float_lit x)\<rparr> = scored_article x" for x
    by (simp add: scored_article_def)
  have h: "stored_score (scored_article (9 / 10)) = float_lit (9 / 10) \<and>
           stored_score (scored_article (7 / 10)) = float_lit (7 / 10) \<and>
           stored_score (scored_article (71 / 100)) = float_lit (71 / 100) \<and>
           stored_score (scored_article (2 / 10)) = float_lit (2 / 10)"
    by (simp only: s)
  from filter_threshold[of "[]" stored_score "scored_article (9 / 10)" "scored_article (7 / 10)"
      "scored_article (71 / 100)" "scored_article (2 / 10)"] h
  have "filter_loop (\<lambda>a. Inr (stored_score a))
     [scored_article (9 / 10), scored_article (7 / 10), scored_article (71 / 100),
      scored_article (2 / 10)] [] =
     [scored_article (9 / 10)\<lparr>relevance_score := Some (float_lit (9 / 10))\<rparr>,
      scored_article (71 / 100)\<lparr>relevance_score := Some (float_lit (71 / 100))\<rparr>]"
    by blast
  then show ?thesis using h by (simp only: u simp_thms)
qed

section \<open>The report renderer\<close>

lemma finding_block_scored:
  "relevance_score a = Some r \<Longrightarrow> finding_block i a = Inr (finding_text i a (fixed2 r))"
  by (simp add: finding_block_def)

lemma finding_block_unscored:
  "relevance_score a = None \<Longrightarrow> finding_block i a = Inl ValueError"
  by (simp add: finding_block_def)

lemma findings_loop_scored:
  assumes "\<forall>a\<in>set docs. relevance_score a \<noteq> None"
  shows "findings_loop i docs acc =
           Inr (acc @ concat (map (\<lambda>(j, a). finding_text j a (fixed2 (the (relevance_score a))))
                                (enumerate i docs)))"
  using assms
proof (induction docs arbitrary: i acc)
  case Nil
  then show ?case by simp
next
  case (Cons a docs)
  then obtain r where r: "relevance_score a = Some r" by auto
  show ?case using Cons by (simp add: finding_block_scored[OF r] r)
qed

lemma findings_loop_unscored:
  assumes "a \<in> set docs" and "relevance_score a = None"
  shows "findings_loop i docs acc = Inl ValueError"
  using assms
proof (induction docs arbitrary: i acc)
  case Nil
  then show ?case by simp
next
  case (Cons b docs)
  show ?case
  proof (cases "relevance_score b")
    case None
    then show ?thesis by (simp add: finding_block_unscored)
  next
    case (Some r)
    with Cons.prems have "a \<in> set docs" by auto
    then show ?thesis using Cons.IH Cons.prems(2) by (simp add: finding_block_scored[OF Some])
  qed
qed

lemma citations_loop_eq:
  "citations_loop i docs acc = acc @ concat (map (\<lambda>(j, a). citation j a) (enumerate i docs))"
  by (induction docs arbitrary: i acc) simp_all

text \<open>The report on a list of scored articles: every piece in the order of the list.\<close>

lemma summary_scored:
  assumes "\<forall>a\<in>set docs. relevance_score a \<noteq> None"
  shows "generate_fallback_summary c docs =
           Inr (report_header c (length docs) @
                concat (map (\<lambda>(j, a). finding_text j a (fixed2 (the (relevance_score a))))
                          (enumerate 1 docs)) @
                recommendations @
                concat (map (\<lambda>(j, a). citation j a) (enumerate 1 docs)) @
                report_footer c)"
  by (simp add: generate_fallback_summary_def findings_loop_scored[OF assms] citations_loop_eq)

text \<open>
  Claim C8 (render order). For two scored articles \<open>A\<close> and \<open>B\<close>, whatever their scores
  and dates, the report on \<open>[A, B]\<close> is the header, the finding block of \<open>A\<close> numbered 1,
  the finding block of \<open>B\<close> numbered 2, the recommendations, the citation of \<open>A\<close>
  numbered 1, the citation of \<open>B\<close> numbered 2 and the footer, in this order.
\<close>

theorem render_order:
  assumes "relevance_score A = Some sa" and "relevance_score B = Some sb"
  shows "generate_summary c [A, B] =
           Inr (report_header c 2 @
                finding_text 1 A (fixed2 sa) @ finding_text 2 B (fixed2 sb) @
                recommendations @
                citation 1 A @ citation 2 B @
                report_footer c)"
proof -
  have "\<forall>a\<in>set [A, B]. relevance_score a \<noteq> None" using assms by simp
  from summary_scored[OF this, of c] show ?thesis
    using assms by (simp add: generate_summary_def numeral_2_eq_2)
qed

theorem render_order_witness:
  "relevance_score (scored_article (2 / 10)) = Some (float_lit (2 / 10)) \<and>
   relevance_score (scored_article (9 / 10)) = Some (float_lit (9 / 10)) \<and>
   generate_summary clock_a [scored_article (2 / 10), scored_article (9 / 10)] =
     Inr (report_header clock_a 2 @
          finding_text 1 (scored_article (2 / 10)) (fixed2 (float_lit (2 / 10))) @
          finding_text 2 (scored_article (9 / 10)) (fixed2 (float_lit (9 / 10))) @
          recommendations @
          citation 1 (scored_article (2 / 10)) @ citation 2 (scored_article (9 / 10)) @
          report_footer clock_a)"
proof -
  have a: "relevance_score (scored_article (2 / 10)) = Some (float_lit (2 / 10))"
    by (simp add: scored_article_def)
  have b: "relevance_score (scored_article (9 / 10)) = Some (float_lit (9 / 10))"
    by (simp add: scored_article_def)
  show ?thesis using a b render_order[OF a b, of clock_a] by (simp only: simp_thms)
qed

text \<open>
  Claim C10 (unscored articles). When some article of the list has no
  \<open>relevance_score\<close>, the renderer raises: the format \<open>.2f\<close> meets the string default
  \<open>N/A\<close> and fails with \<open>ValueError\<close>, and no report is returned. So the renderer
  returns a report only on lists in which every article is scored.
\<close>

theorem render_unscored_raises:
  assumes "a \<in> set docs" and "relevance_score a = None"
  shows "generate_fallback_summary c docs = Inl ValueError \<and>
         generate_summary c docs = Inl ValueError \<and>
         (\<forall>report. generate_summary c docs \<noteq> Inr report)"
  using findings_loop_unscored[OF assms]
  by (simp add: generate_summary_def generate_fallback_summary_def)

theorem render_unscored_raises_witness:
  "hd demo_articles \<in> set demo_articles \<and> relevance_score (hd demo_articles) = None \<and>
   generate_summary clock_a demo_articles = Inl ValueError"
proof -
  have a: "hd demo_articles \<in> set demo_articles" by (simp add: demo_articles_def)
  have b: "relevance_score (hd demo_articles) = None" by (simp add: demo_articles_def)
  show ?thesis using a b render_unscored_raises[OF a b, of clock_a] by (simp only: simp_thms)
qed

lemma isoformat_clock_a: "isoformat (now_front clock_a) = ''2025-01-01T12:00:00''"
  by code_simp

lemma isoformat_clock_b: "isoformat (now_front clock_b) = ''2025-01-01T12:00:01''"
  by code_simp

lemma report_header_date:
  "\<exists>rest. report_header c n =
     (''---'' @ nl @ ''title: '' @ dq @ ''NIST SP 800 Compliance Update Summary'' @ dq @ nl @
      ''date: '' @ dq) @ isoformat (now_front c) @ rest"
  by (simp add: report_header_def unlines_def)

text \<open>
  Claim C9 (determinism), as the claim states it: two invocations on the same list
  return the same string. The renderer reads the clock, and one second later the same
  list of two scored articles gives another report.
\<close>

theorem render_clock_counterexample:
  "generate_summary clock_a [scored_article (9 / 10), scored_article (2 / 10)] \<noteq>
   generate_summary clock_b [scored_article (9 / 10), scored_article (2 / 10)]"
proof -
  let ?docs = "[scored_article (9 / 10), scored_article (2 / 10)]"
  have s: "\<forall>a\<in>set ?docs. relevance_score a \<noteq> None"
    by (simp add: scored_article_def)
  obtain ra where ra: "report_header clock_a (length ?docs) =
     (''---'' @ nl @ ''title: '' @ dq @ ''NIST SP 800 Compliance Update Summary'' @ dq @ nl @
      ''date: '' @ dq) @ ''2025-01-01T12:00:00'' @ ra"
    using report_header_date[of clock_a "length ?docs"] unfolding isoformat_clock_a by blast
  obtain rb where rb: "report_header clock_b (length ?docs) =
     (''---'' @ nl @ ''title: '' @ dq @ ''NIST SP 800 Compliance Update Summary'' @ dq @ nl @
      ''date: '' @ dq) @ ''2025-01-01T12:00:01'' @ rb"
    using report_header_date[of clock_b "length ?docs"] unfolding isoformat_clock_b by blast
  show ?thesis
    unfolding generate_summary_def summary_scored[OF s] ra rb by simp
qed

text \<open>
  Claim C9, amended. The renderer reads nothing but its argument and the clock. For a
  fixed list, either every invocation raises \<open>ValueError\<close>, whatever the clock shows,
  or every invocation returns the header, one body and the footer, where the body is the
  same for all clock readings: two reports on the same list differ at most in the three
  timestamps of the header and the footer, and are equal when the clock readings are.
\<close>

theorem render_deterministic_up_to_clock:
  "(\<forall>c. generate_summary c docs = Inl ValueError) \<or>
   (\<exists>body. \<forall>c. generate_summary c docs =
                   Inr (report_header c (length docs) @ body @ report_footer c))"
proof (cases "\<forall>a\<in>set docs. relevance_score a \<noteq> None")
  case True
  let ?body = "concat (map (\<lambda>(j, a). finding_text j a (fixed2 (the (relevance_score a))))
                          (enumerate 1 docs)) @
               recommendations @
               concat (map (\<lambda>(j, a). citation j a) (enumerate 1 docs))"
  have "\<forall>c. generate_summary c docs =
              Inr (report_header c (length docs) @ ?body @ report_footer c)"
    by (simp add: generate_summary_def summary_scored[OF True])
  then show ?thesis by blast
next
  case False
  then obtain a where "a \<in> set docs" "relevance_score a = None" by auto
  from findings_loop_unscored[OF this] show ?thesis
    by (simp add: generate_summary_def generate_fallback_summary_def)
qed

section \<open>The request surface\<close>

lemma search_nist_updates_zero: "search_nist_updates E t 0 = []"
  by (simp add: search_nist_updates_def Let_def py_slice_to_def)

lemma unreachable_listing:
  "search_nist_csrc unreachable_env term 1 =
     [\<lparr>title = Some ''NIST Cybersecurity Framework 2.0'',
       url = Some ''https://csrc.nist.gov/publications/detail/csf/2.0'',
       date = Some ''2025-01-01'',
       summary = Some (''NIST publication related to '' @ term),
       source = Some ''NIST CSRC'', content = None, relevance_score = None\<rparr>]"
proof -
  have k: "list_ex (\<lambda>keyword. py_in keyword (py_lower ''NIST Cybersecurity Framework 2.0''))
             [''sp 800'', ''special publication'', ''cybersecurity'', ''framework'']"
    by code_simp
  have h: "\<not> prefix ''http'' ''/publications/detail/csf/2.0''"
    by simp
  show ?thesis
    unfolding search_nist_csrc_def unreachable_env_def offline_env_def
    using k h by (simp add: NIST_BASE_URL_def Let_def)
qed

lemma unreachable_updates:
  "search_nist_updates unreachable_env None 3 =
     search_nist_csrc unreachable_env ''NIST SP 800-53'' 1 @
     search_nist_csrc unreachable_env ''NIST SP 800-171'' 1 @
     search_nist_csrc unreachable_env ''NIST SP 800-218'' 1"
  by (simp add: search_nist_updates_def Let_def NIST_SEARCH_TERMS_def py_slice_to_def
        truthy_def unreachable_listing)

lemma unreachable_extract:
  "fst (extract_content unreachable_env (search_nist_updates unreachable_env None 3)) = []"
  unfolding unreachable_updates unreachable_listing
  by (simp add: extract_content_def truthy_def extract_single_article_def dict_get_def
        unreachable_env_def offline_env_def)

lemma unreachable_relevant:
  "filter_it_relevant_content
     (fst (extract_content unreachable_env (search_nist_updates unreachable_env None 3))) = []"
  unfolding unreachable_extract by (simp add: filter_it_relevant_content_def)

text \<open>
  Claim C2 (distinct not-found conditions). The code raises a 404 for each of the two
  empty outcomes, but inside the \<open>try\<close> block whose handler catches every exception and
  raises a 500 in its place. What the caller receives: with \<open>max_articles = 0\<close> nothing
  is retrieved and the answer is a 500; with three publications listed and none of
  their pages reachable nothing is relevant and the answer is a 500; and no request at
  all is answered with a 404.
\<close>

theorem run_workflow_not_found_is_500:
  "run_workflow E c \<lparr>topic = t, max_articles = 0\<rparr> =
     Inl (HTTPException 500 (exception_str E (HTTPException 404 ''No NIST updates found''))) \<and>
   run_workflow unreachable_env c \<lparr>topic = None, max_articles = 3\<rparr> =
     Inl (HTTPException 500 (exception_str unreachable_env
            (HTTPException 404 ''No relevant articles found for IT organizations''))) \<and>
   run_workflow E c request \<noteq> Inl (HTTPException 404 detail)"
proof (intro conjI)
  show "run_workflow E c \<lparr>topic = t, max_articles = 0\<rparr> =
     Inl (HTTPException 500 (exception_str E (HTTPException 404 ''No NIST updates found'')))"
    by (simp add: run_workflow_def workflow_steps_def search_nist_updates_zero)
  have "search_nist_updates unreachable_env None 3 \<noteq> []"
    unfolding unreachable_updates unreachable_listing by simp
  then show "run_workflow unreachable_env c \<lparr>topic = None, max_articles = 3\<rparr> =
     Inl (HTTPException 500 (exception_str unreachable_env
            (HTTPException 404 ''No relevant articles found for IT organizations'')))"
    by (simp add: run_workflow_def workflow_steps_def Let_def unreachable_relevant)
  show "run_workflow E c request \<noteq> Inl (HTTPException 404 detail)"
    by (simp add: run_workflow_def split: sum.splits)
qed

section \<open>Keyword occurrences and the raw score\<close>

lemma prefix_imp_py_in: "prefix k t \<Longrightarrow> py_in k t"
  by (cases t) simp_all

lemma py_in_append_right: "py_in k t \<Longrightarrow> py_in k (t @ u)"
proof (induction t)
  case Nil
  then show ?case by (simp add: prefix_imp_py_in)
next
  case (Cons c cs)
  from Cons.prems have "prefix k (c # cs) \<or> py_in k cs" by simp
  then show ?case
  proof
    assume "prefix k (c # cs)"
    then have "prefix k ((c # cs) @ u)" by (rule prefix_prefix)
    then show ?thesis by simp
  next
    assume "py_in k cs"
    then show ?thesis using Cons.IH by simp
  qed
qed

lemma prefix_short: "length k \<le> length u \<Longrightarrow> prefix k (u @ v) = prefix k u"
  by (auto simp: prefix_append)

text \<open>
  A run of one character that is at least as long as the keyword can be made one
  character longer or shorter without adding or removing an occurrence.
\<close>

lemma py_in_pump:
  assumes "length k \<le> n"
  shows "py_in k (pre @ replicate (Suc n) x @ post) = py_in k (pre @ replicate n x @ post)"
proof (induction pre)
  case Nil
  have "py_in k (replicate n x @ post)" if "prefix k (x # replicate n x @ post)"
  proof -
    from that have "prefix k (replicate n x @ (x # post))"
      by (simp add: replicate_app_Cons_same)
    then have "prefix k (replicate n x)" using assms by (simp add: prefix_short)
    then have "prefix k (replicate n x @ post)" by (rule prefix_prefix)
    then show ?thesis by (rule prefix_imp_py_in)
  qed
  then show ?case by auto
next
  case (Cons a pre)
  have "prefix k ((a # pre @ replicate n x) @ (x # post)) = prefix k (a # pre @ replicate n x)"
    using assms by (intro prefix_short) simp
  moreover have "prefix k ((a # pre @ replicate n x) @ post) = prefix k (a # pre @ replicate n x)"
    using assms by (intro prefix_short) simp
  ultimately have "prefix k (a # pre @ replicate (Suc n) x @ post) =
                   prefix k (a # pre @ replicate n x @ post)"
    by (simp add: replicate_app_Cons_same)
  then show ?case using Cons.IH by simp
qed

lemma py_in_pump_many:
  assumes "length k \<le> m" and "m \<le> n"
  shows "py_in k (pre @ replicate n x @ post) = py_in k (pre @ replicate m x @ post)"
  using assms(2)
proof (induction rule: dec_induct)
  case base
  show ?case by simp
next
  case (step j)
  have "length k \<le> j" using assms(1) step.hyps(1) by simp
  from py_in_pump[OF this] step.IH show ?case by simp
qed

lemma keyword_length: "k \<in> set keyword_list \<Longrightarrow> length k \<le> 14"
  by (auto simp: keyword_list_def)

lemma matches_long_run:
  assumes "scored_text a = pre @ replicate n CHR ''x'' @ post" and "14 \<le> n"
  shows "matches a =
           length (filter (\<lambda>keyword. py_in keyword (pre @ replicate 14 CHR ''x'' @ post)) keyword_list)"
proof -
  have "py_in k (scored_text a) = py_in k (pre @ replicate 14 CHR ''x'' @ post)"
    if "k \<in> set keyword_list" for k
    unfolding assms(1) using keyword_length[OF that] assms(2) by (rule py_in_pump_many)
  then have "filter (\<lambda>keyword. py_in keyword (scored_text a)) keyword_list =
             filter (\<lambda>keyword. py_in keyword (pre @ replicate 14 CHR ''x'' @ post)) keyword_list"
    by (intro filter_cong) simp_all
  then show ?thesis by (simp add: matches_def)
qed

lemma py_lower_title: "py_lower ''NIST update  '' = ''nist update  ''"
  by code_simp

lemma py_lower_nist: "py_lower ''nist'' = ''nist''"
  by code_simp

lemma py_lower_sbom: "py_lower ''sbom'' = ''sbom''"
  by code_simp

lemma py_lower_run: "py_lower (replicate n CHR ''x'') = replicate n CHR ''x''"
  by (simp add: py_lower_def py_lower_char_def)

lemma py_lower_append: "py_lower (s @ t) = py_lower s @ py_lower t"
  by (simp add: py_lower_def)

lemma scored_text_long_article:
  "scored_text (long_article c) = py_lower ''NIST update  '' @ py_lower (py_slice_to 1000 c)"
  by (simp add: scored_text_def long_article_def dict_get_def py_lower_def)

lemma scored_text_long:
  "scored_text (long_article long_content) =
     ''nist update  '' @ replicate 996 CHR ''x'' @ ''sbom''"
proof -
  have "py_slice_to 1000 long_content = replicate 996 CHR ''x'' @ ''sbom''"
    by (simp add: py_slice_to_def long_content_def)
  then show ?thesis
    by (simp only: scored_text_long_article py_lower_append py_lower_title py_lower_run
          py_lower_sbom)
qed

lemma scored_text_long_nist:
  "scored_text (long_article (''nist'' @ long_content)) =
     (''nist update  '' @ ''nist'') @ replicate 996 CHR ''x'' @ []"
proof -
  have "take 1000 (''nist'' @ replicate 996 CHR ''x'' @ ''sbom'') = ''nist'' @ replicate 996 CHR ''x''"
    by simp
  then have "py_slice_to 1000 (''nist'' @ long_content) = ''nist'' @ replicate 996 CHR ''x''"
    by (simp add: py_slice_to_def long_content_def)
  then show ?thesis
    by (simp only: scored_text_long_article py_lower_append py_lower_title py_lower_run
          py_lower_nist append_assoc append_Nil2)
qed

lemma matches_long: "matches (long_article long_content) = 2"
proof -
  have "matches (long_article long_content) =
          length (filter (\<lambda>keyword. py_in keyword
                    (''nist update  '' @ replicate 14 CHR ''x'' @ ''sbom'')) keyword_list)"
    by (rule matches_long_run[OF scored_text_long]) simp
  also have "\<dots> = 2" by code_simp
  finally show ?thesis .
qed

lemma matches_long_nist: "matches (long_article (''nist'' @ long_content)) = 1"
proof -
  have "matches (long_article (''nist'' @ long_content)) =
          length (filter (\<lambda>keyword. py_in keyword
                    ((''nist update  '' @ ''nist'') @ replicate 14 CHR ''x'' @ [])) keyword_list)"
    by (rule matches_long_run[OF scored_text_long_nist]) simp
  also have "\<dots> = 1" by code_simp
  finally show ?thesis .
qed

text \<open>
  Claim C5 (monotone keyword effect), as the claim states it. The article has the title
  \<open>NIST update\<close> and 1000 characters of content that end in \<open>sbom\<close>, so two keywords
  match. One more occurrence of the keyword \<open>nist\<close> is added at the front of the
  content: \<open>sbom\<close> leaves the first 1000 characters, one keyword matches, and the raw
  score is smaller than before.
\<close>

theorem keyword_prepended_counterexample:
  "''nist'' \<in> set keyword_list \<and>
   raw_score (long_article (''nist'' @ long_content)) < raw_score (long_article long_content)"
proof
  show "''nist'' \<in> set keyword_list" by (simp add: keyword_list_def)
  have "int_truediv 1 30 < int_truediv 2 30" by code_simp
  then show "raw_score (long_article (''nist'' @ long_content)) < raw_score (long_article long_content)"
    unfolding raw_score_def matches_long matches_long_nist by (simp add: keyword_list_def)
qed

lemma scored_text_appended:
  "scored_text (a\<lparr>content := Some (dict_get (content a) [] @ k)\<rparr>) =
     scored_text a @ py_lower (take (1000 - length (dict_get (content a) [])) k)"
  by (simp add: scored_text_def py_slice_to_def dict_get_def py_lower_def)

lemma length_filter_mono:
  "(\<And>x. x \<in> set xs \<Longrightarrow> P x \<Longrightarrow> Q x) \<Longrightarrow> length (filter P xs) \<le> length (filter Q xs)"
  by (induction xs) auto

lemma matches_appended: "matches a \<le> matches (a\<lparr>content := Some (dict_get (content a) [] @ k)\<rparr>)"
  unfolding matches_def scored_text_appended
  by (rule length_filter_mono) (rule py_in_append_right)

text \<open>
  Claim C5, amended. Appending text to the end of the content, an occurrence of a
  keyword in particular, never decreases the raw score: the text the scorer inspects
  only grows at its end, so every keyword that matched still matches.
\<close>

theorem keyword_appended_monotone:
  "raw_score a \<le> raw_score (a\<lparr>content := Some (dict_get (content a) [] @ k)\<rparr>)"
proof -
  have "(of_int (int (matches a)) :: rat) / of_int (int (length keyword_list))
          \<le> of_int (int (matches (a\<lparr>content := Some (dict_get (content a) [] @ k)\<rparr>)))
              / of_int (int (length keyword_list))"
    using matches_appended[of a k] by (intro divide_right_mono) simp_all
  then show ?thesis
    unfolding raw_score_def int_truediv_def by (intro double_round_mono) simp_all
qed

end
